theory Spec2Isabelle
  imports Complex_Main "HOL-Library.Multiset" "HOL-Library.Sublist"
begin

section \<open>The transaction feed of spendify-server\<close>

text \<open>
  The theory embeds the body of \<^verbatim>\<open>getAccountTransactions\<close>
  (\<^verbatim>\<open>src/layers/api/accounts/accounts.handlers.ts\<close>, and the same code as a route
  handler in the older layout of the repository): the part that starts at
  \<^verbatim>\<open>// Map cumulative balance\<close> and ends with the array handed to \<^verbatim>\<open>res.json\<close>.

  The handler calls four libraries. Their code is not part of the repository, so what the
  handler uses of them is modelled here from their published behaviour:
  \<^item> \<^verbatim>\<open>currency.js\<close>: \<^verbatim>\<open>currency(value, opts)\<close>, \<^verbatim>\<open>subtract\<close>, \<^verbatim>\<open>format\<close>,
    \<^verbatim>\<open>value\<close>, as definitions on strings and integers of minor units;
  \<^item> \<^verbatim>\<open>fuzzysort\<close>: \<^verbatim>\<open>go\<close> with a \<^verbatim>\<open>key\<close> and a \<^verbatim>\<open>threshold\<close>; the scoring
    algorithm itself is a parameter;
  \<^item> \<^verbatim>\<open>date-fns\<close>: \<^verbatim>\<open>startOfDay\<close> and \<^verbatim>\<open>endOfDay\<close>, in a time zone with a fixed
    offset from UTC;
  \<^item> \<^verbatim>\<open>natural\<close>: the loaded Bayes classifier is a parameter.

  A JavaScript number is modelled as \<open>rat option\<close>: \<open>None\<close> is \<^verbatim>\<open>NaN\<close>, and a finite
  number is the exact rational (the binary rounding of doubles is not modelled; the
  integers of minor units that \<^verbatim>\<open>currency.js\<close> computes with are exact in a double
  below \<open>2^53\<close>). A JavaScript string is a \<open>string\<close> of 8-bit characters.
\<close>

subsection \<open>Decimal digits\<close>

text \<open>Numbers of digits are integers here, so that they evaluate in binary.\<close>

definition isDigit :: "char \<Rightarrow> bool" where
  "isDigit c = (48 \<le> (of_char c :: int) \<and> (of_char c :: int) \<le> 57)"

definition digitVal :: "char \<Rightarrow> int" where
  "digitVal c = of_char c - 48"

definition digitChar :: "int \<Rightarrow> char" where
  "digitChar d = char_of (48 + d)"

text \<open>The value of a run of decimal digits, most significant first.\<close>

definition digitsVal :: "string \<Rightarrow> int" where
  "digitsVal ds = foldl (\<lambda>a c. 10 * a + digitVal c) 0 ds"

text \<open>
  The decimal digits of a natural number, without leading zeros (\<open>0\<close> is \<open>''0''\<close>); it is
  applied to integers that are not negative.
\<close>

function showNat :: "int \<Rightarrow> string" where
  "showNat n = (if n < 10 then [digitChar n] else showNat (n div 10) @ [digitChar (n mod 10)])"
  by pat_completeness auto
termination
  by (relation "measure nat") auto

declare showNat.simps [simp del]

subsection \<open>JavaScript numbers and strings\<close>

type_synonym number = "rat option"

text \<open>
  \<^verbatim>\<open>ToNumber\<close> on a string made of digits, \<^verbatim>\<open>-\<close> and \<^verbatim>\<open>.\<close> only (every other character
  has been removed before the conversion, see \<open>parseString\<close>): an optional minus sign, then
  \<^verbatim>\<open>digits\<close>, \<^verbatim>\<open>digits.\<close>, \<^verbatim>\<open>digits.digits\<close> or \<^verbatim>\<open>.digits\<close>; anything else is \<^verbatim>\<open>NaN\<close>
  (so is the text \<^verbatim>\<open>NaN\<close> that \<open>toFixed\<close> prints for \<^verbatim>\<open>NaN\<close>).
\<close>

definition unsignedDecimal :: "string \<Rightarrow> number" where
  "unsignedDecimal s =
     (let ip = takeWhile isDigit s; r = dropWhile isDigit s in
      case r of
        [] \<Rightarrow> if ip = [] then None else Some (of_int (digitsVal ip))
      | c # fp \<Rightarrow>
          if c = CHR ''.'' \<and> list_all isDigit fp \<and> (ip \<noteq> [] \<or> fp \<noteq> [])
          then Some (of_int (digitsVal ip) + of_int (digitsVal fp) / 10 ^ length fp)
          else None)"

definition toNumber :: "string \<Rightarrow> number" where
  "toNumber s =
     (case s of
        [] \<Rightarrow> Some 0
      | c # r \<Rightarrow> if c = CHR ''-'' then map_option uminus (unsignedDecimal r) else unsignedDecimal s)"

text \<open>
  \<^verbatim>\<open>Number.prototype.toFixed(f)\<close>: the integer \<open>n\<close> nearest to \<open>|x| * 10^f\<close> (the larger one
  at a tie), its digits padded with zeros to \<open>f + 1\<close> places, a point before the last \<open>f\<close>
  digits, and a minus sign for a negative \<open>x\<close>. \<^verbatim>\<open>NaN\<close> prints as \<^verbatim>\<open>NaN\<close>. (The exponent
  notation of numbers from \<open>10^21\<close> on is not modelled.)
\<close>

definition toFixed :: "nat \<Rightarrow> number \<Rightarrow> string" where
  "toFixed f x =
     (case x of
        None \<Rightarrow> ''NaN''
      | Some v \<Rightarrow>
          (let n = \<lfloor>\<bar>v\<bar> * 10 ^ f + 1 / 2\<rfloor>;
               m = showNat n;
               m = (if length m \<le> f then replicate (f + 1 - length m) (CHR ''0'') @ m else m);
               k = length m;
               m = (if f \<noteq> 0 then take (k - f) m @ ''.'' @ drop (k - f) m else m)
           in (if v < 0 then ''-'' else '''') @ m))"

text \<open>\<^verbatim>\<open>Math.round\<close>: the nearest integer, a tie rounded up.\<close>

definition mathRound :: "number \<Rightarrow> int option" where
  "mathRound x = map_option (\<lambda>v. \<lfloor>v + 1 / 2\<rfloor>) x"

subsection \<open>currency.js\<close>

text \<open>
  The options a \<^verbatim>\<open>currency\<close> object carries. \<^verbatim>\<open>precision\<close> is left at its default 2
  (\<open>100\<close> minor units to the unit) and \<^verbatim>\<open>errorOnInvalid\<close> at its default \<^verbatim>\<open>false\<close>
  everywhere in the handler.
\<close>

record settings =
  symbol :: string
  separator :: string
  decimal :: char

text \<open>
  \<^verbatim>\<open>NORDIGEN_CURRENCY\<close> and \<^verbatim>\<open>FORMATTED_CURRENCY\<close> of \<^verbatim>\<open>@global/constants\<close>. The constants
  file is not among the sources; the values are the ones the older layout of the same
  handler writes inline:
  \<^verbatim>\<open>currency(value, { symbol: '', separator: '', decimal: '.' })\<close> and
  \<^verbatim>\<open>FINAL_CURRENCY_FORMAT = { decimal: ',', separator: '.' }\<close>. \<^verbatim>\<open>format(options)\<close> merges
  its options over the object's own, so the symbol stays empty.
\<close>

definition NORDIGEN_CURRENCY :: settings where
  "NORDIGEN_CURRENCY = \<lparr>symbol = '''', separator = '''', decimal = CHR ''.''\<rparr>"

definition FORMATTED_CURRENCY :: "settings \<Rightarrow> settings" where
  "FORMATTED_CURRENCY s = s\<lparr>decimal := CHR '','', separator := ''.''\<rparr>"

text \<open>
  A \<^verbatim>\<open>currency\<close> object is its \<^verbatim>\<open>intValue\<close>, the amount in minor units (\<open>None\<close> is
  \<^verbatim>\<open>NaN\<close>); its \<^verbatim>\<open>value\<close> (here \<open>valueOf\<close>) is
  \<^verbatim>\<open>intValue / precision\<close>.
\<close>

type_synonym currency = "int option"

definition valueOf :: "currency \<Rightarrow> number" where
  "valueOf c = map_option (\<lambda>i. of_int i / 100) c"

text \<open>
  \<^verbatim>\<open>value.replace(/\((.*)\)/, '-$1')\<close>: the first \<^verbatim>\<open>(\<close> that has a \<^verbatim>\<open>)\<close> after it on the same
  line, together with the last such \<^verbatim>\<open>)\<close>, is replaced by a minus sign in front of what
  stood between them.
\<close>

definition isLineTerminator :: "char \<Rightarrow> bool" where
  "isLineTerminator c = (c = CHR 0x0A \<or> c = CHR 0x0D)"

fun parenReplace :: "string \<Rightarrow> string" where
  "parenReplace [] = []"
| "parenReplace (c # r) =
     (if c = CHR ''(''
      then (let line = takeWhile (\<lambda>x. \<not> isLineTerminator x) r in
            if CHR '')'' \<in> set line
            then (let q = length line - 1 - length (takeWhile (\<lambda>x. x \<noteq> CHR '')'') (rev line))
                  in CHR ''-'' # take q r @ drop (Suc q) r)
            else c # parenReplace r)
      else c # parenReplace r)"

text \<open>
  \<^verbatim>\<open>parse(value, opts)\<close> for a number: scaled to minor units, printed with four decimals
  (\<^verbatim>\<open>toFixed(4)\<close>), read back and rounded.
\<close>

definition parseNumber :: "number \<Rightarrow> int option" where
  "parseNumber v = mathRound (toNumber (toFixed 4 (map_option (\<lambda>x. x * 100) v)))"

text \<open>
  \<^verbatim>\<open>parse(value, opts)\<close> for a string: the parentheses are rewritten, every character that
  is not a digit, \<^verbatim>\<open>-\<close> or the decimal mark is removed, the decimal mark becomes \<^verbatim>\<open>.\<close>,
  and an empty rest is \<open>0\<close> (\<^verbatim>\<open>v = v || 0\<close>). Nothing is thrown: \<^verbatim>\<open>errorOnInvalid\<close> is off,
  and it concerns only values that are neither numbers nor strings.
\<close>

definition parseString :: "settings \<Rightarrow> string \<Rightarrow> int option" where
  "parseString s str =
     (let v = filter (\<lambda>c. c = CHR ''-'' \<or> isDigit c \<or> c = decimal s) (parenReplace str);
          v = map (\<lambda>c. if c = decimal s then CHR ''.'' else c) v
      in if v = [] then parseNumber (Some 0) else parseNumber (toNumber v))"

text \<open>\<^verbatim>\<open>const nordigenCurrency = (value: string) => currency(value, NORDIGEN_CURRENCY)\<close>\<close>

definition nordigenCurrency :: "string \<Rightarrow> currency" where
  "nordigenCurrency str = parseString NORDIGEN_CURRENCY str"

text \<open>
  \<^verbatim>\<open>subtract(number)\<close>:
  \<^verbatim>\<open>currency((intValue -= parse(number, settings)) / precision, settings)\<close>.
\<close>

definition subtract :: "currency \<Rightarrow> string \<Rightarrow> currency" where
  "subtract c str =
     parseNumber
       (case (c, parseString NORDIGEN_CURRENCY str) of
          (Some i, Some j) \<Rightarrow> Some (of_int (i - j) / 100)
        | _ \<Rightarrow> None)"

text \<open>
  \<^verbatim>\<open>toString()\<close> is \<^verbatim>\<open>rounding(intValue / precision, increment).toFixed(precision)\<close> with
  the increment \<open>1 / precision\<close>.
\<close>

definition toString :: "currency \<Rightarrow> string" where
  "toString c = toFixed 2 (valueOf c)"

text \<open>
  The grouping of \<^verbatim>\<open>dollars.replace(groups, '$1' + separator)\<close> with
  \<^verbatim>\<open>groups = /(\d)(?=(\d{3})+\b)/g\<close>: in a run of digits the separator goes after every
  digit that has a positive multiple of three digits to its right. The text it is applied
  to is a run of digits or \<^verbatim>\<open>NaN\<close>, which has no digit and stays as it is.
\<close>

fun groupDigits :: "string \<Rightarrow> string \<Rightarrow> string" where
  "groupDigits sep [] = []"
| "groupDigits sep (c # r) =
     (if isDigit c \<and> r \<noteq> [] \<and> length r mod 3 = 0 \<and> list_all isDigit r
      then c # sep @ groupDigits sep r
      else c # groupDigits sep r)"

text \<open>
  \<^verbatim>\<open>format(currency, settings)\<close>: the text of \<^verbatim>\<open>toString()\<close> without its leading minus
  sign is split at the point into \<^verbatim>\<open>dollars\<close> and \<^verbatim>\<open>cents\<close>; the pattern is \<^verbatim>\<open>!#\<close> when
  \<^verbatim>\<open>currency.value >= 0\<close> and \<^verbatim>\<open>-!#\<close> otherwise (also for \<^verbatim>\<open>NaN\<close>); \<^verbatim>\<open>!\<close> is the symbol
  and \<^verbatim>\<open>#\<close> the grouped dollars, the decimal mark and the cents.
\<close>

definition format :: "settings \<Rightarrow> currency \<Rightarrow> string" where
  "format s c =
     (let str = toString c;
          str = (case str of [] \<Rightarrow> [] | x # r \<Rightarrow> if x = CHR ''-'' then r else str);
          dollars = takeWhile (\<lambda>x. x \<noteq> CHR ''.'') str;
          rest = dropWhile (\<lambda>x. x \<noteq> CHR ''.'') str;
          cents = takeWhile (\<lambda>x. x \<noteq> CHR ''.'') (drop 1 rest);
          nonneg = (case valueOf c of None \<Rightarrow> False | Some v \<Rightarrow> v \<ge> 0)
      in (if nonneg then '''' else ''-'') @ symbol s
         @ groupDigits (separator s) dollars
         @ (if cents \<noteq> [] then decimal s # cents else []))"

subsection \<open>Dates\<close>

text \<open>
  A \<^verbatim>\<open>Date\<close> is its time value, the milliseconds since the epoch; \<open>None\<close> is an invalid
  date, whose time value is \<^verbatim>\<open>NaN\<close>. \<^verbatim>\<open>startOfDay\<close> and \<^verbatim>\<open>endOfDay\<close> of \<^verbatim>\<open>date-fns\<close> are
  \<^verbatim>\<open>setHours(0, 0, 0, 0)\<close> and \<^verbatim>\<open>setHours(23, 59, 59, 999)\<close> in the server's local time;
  the local time is UTC plus a fixed offset \<open>tz\<close> in milliseconds (no change of offset
  within the days concerned).
\<close>

type_synonym jsDate = "int option"

definition msPerDay :: int where
  "msPerDay = 86400000"

definition startOfDay :: "int \<Rightarrow> jsDate \<Rightarrow> jsDate" where
  "startOfDay tz d = map_option (\<lambda>t. t - (t + tz) mod msPerDay) d"

definition endOfDay :: "int \<Rightarrow> jsDate \<Rightarrow> jsDate" where
  "endOfDay tz d = map_option (\<lambda>t. t - (t + tz) mod msPerDay + (msPerDay - 1)) d"

text \<open>\<^verbatim>\<open>a <= b\<close> on two dates compares the time values; it is false when one is \<^verbatim>\<open>NaN\<close>.\<close>

definition dateLe :: "jsDate \<Rightarrow> jsDate \<Rightarrow> bool" where
  "dateLe a b = (case (a, b) of (Some x, Some y) \<Rightarrow> x \<le> y | _ \<Rightarrow> False)"

subsection \<open>The data of the handler\<close>

text \<open>
  A booked transaction as the banking provider returns it; \<open>transactionAmount\<close> is the
  string \<^verbatim>\<open>transactionAmount.amount\<close>.
\<close>

record RawTransaction =
  transactionId :: string
  bookingDate :: string
  transactionAmount :: string
  remittanceInformationUnstructuredArray :: "string list"

text \<open>
  The object the first \<^verbatim>\<open>map\<close> builds (\<open>ident\<close> is its \<^verbatim>\<open>id\<close>). \<open>title\<close> is
  \<^verbatim>\<open>remittanceInformationUnstructuredArray[0]\<close>, which is \<^verbatim>\<open>undefined\<close> (\<open>None\<close>) for an
  empty array.
\<close>

record MappedTransaction =
  ident :: string
  weight :: nat
  title :: "string option"
  date :: jsDate
  amount :: string
  totalAmount :: string
  totalAmountInt :: number

text \<open>The object with its category: \<^verbatim>\<open>{ ...transaction, category: classifiedCategory }\<close>.\<close>

record CategorizedTransaction = MappedTransaction +
  category :: string

definition withCategory :: "MappedTransaction \<Rightarrow> string \<Rightarrow> CategorizedTransaction" where
  "withCategory t c =
     \<lparr>ident = ident t, weight = weight t, title = title t, date = date t, amount = amount t,
      totalAmount = totalAmount t, totalAmountInt = totalAmountInt t, category = c\<rparr>"

text \<open>
  What the handler can raise between the first \<^verbatim>\<open>map\<close> and \<^verbatim>\<open>res.json\<close>: a
  \<^verbatim>\<open>TypeError\<close> of its own expression \<^verbatim>\<open>getClassifications(...)[0].label\<close> on an empty
  array, and whatever the classifier call itself throws.
\<close>

datatype error = TypeError | ClassifierThrew

text \<open>
  The surroundings of the handler:
  \<^item> \<open>newDate\<close> is \<^verbatim>\<open>new Date(string)\<close>;
  \<^item> \<open>timezoneOffset\<close> is the offset of the server's local time from UTC, in milliseconds;
  \<^item> \<open>fuzzyScore search target\<close> is the score \<^verbatim>\<open>fuzzysort\<close> gives a non-empty target for
    a search text, \<open>None\<close> when it finds no match;
  \<^item> \<open>getClassifications\<close> is \<^verbatim>\<open>classifier.getClassifications(title)\<close> of the loaded
    classifier, reduced to the labels of the array it returns, in their order; \<open>None\<close>
    when the call throws.
\<close>

record env =
  newDate :: "string \<Rightarrow> jsDate"
  timezoneOffset :: int
  fuzzyScore :: "string \<Rightarrow> string \<Rightarrow> int option"
  getClassifications :: "string option \<Rightarrow> string list option"

text \<open>A query parameter is absent (\<open>None\<close>) or a string; the empty string is falsy.\<close>

definition truthy :: "string option \<Rightarrow> bool" where
  "truthy q = (case q of None \<Rightarrow> False | Some s \<Rightarrow> s \<noteq> [])"

subsection \<open>Map cumulative balance\<close>

text \<open>
  \<^verbatim>\<open>transactions.map((transaction, index) => ...)\<close> with the variable \<^verbatim>\<open>currentBalance\<close>
  that the callback updates: the loop carries the balance string and the index.
  \<^verbatim>\<open>transactions[index - 1]\<close> is read only for \<open>index \<noteq> 0\<close>, where it is in range.
\<close>

fun mapLoop ::
  "env \<Rightarrow> RawTransaction list \<Rightarrow> string \<Rightarrow> nat \<Rightarrow> RawTransaction list \<Rightarrow> MappedTransaction list"
where
  "mapLoop e transactions currentBalance index [] = []"
| "mapLoop e transactions currentBalance index (transaction # rest) =
     (let currentBalance =
            (if index \<noteq> 0
             then format NORDIGEN_CURRENCY
                    (subtract (nordigenCurrency currentBalance)
                       (transactionAmount (transactions ! (index - 1))))
             else currentBalance)
      in \<lparr>ident = transactionId transaction,
          weight = index,
          title = (case remittanceInformationUnstructuredArray transaction of
                     [] \<Rightarrow> None | x # _ \<Rightarrow> Some x),
          date = newDate e (bookingDate transaction),
          amount = format (FORMATTED_CURRENCY NORDIGEN_CURRENCY)
                     (nordigenCurrency (transactionAmount transaction)),
          totalAmount = format (FORMATTED_CURRENCY NORDIGEN_CURRENCY)
                          (nordigenCurrency currentBalance),
          totalAmountInt = valueOf (nordigenCurrency currentBalance)\<rparr>
         # mapLoop e transactions currentBalance (Suc index) rest)"

definition mapCumulativeBalance ::
  "env \<Rightarrow> RawTransaction list \<Rightarrow> string \<Rightarrow> MappedTransaction list"
where
  "mapCumulativeBalance e transactions currentBalance =
     mapLoop e transactions currentBalance 0 transactions"

subsection \<open>Apply fuzzysort\<close>

text \<open>
  \<^verbatim>\<open>fuzzysort.go(search, targets, { key: 'title', threshold: -400 })\<close>: a target whose key
  is missing or empty is skipped, as is one without a match or with a score below the
  threshold; the results come in descending order of score. (Among equal scores the
  library's order comes from its heap; here it is the order of the targets.)
\<close>

definition threshold :: int where
  "threshold = - 400"

definition fuzzysortGo :: "env \<Rightarrow> string \<Rightarrow> MappedTransaction list \<Rightarrow> MappedTransaction list" where
  "fuzzysortGo e search targets =
     map snd
       (sort_key (\<lambda>r. - fst r)
          (List.map_filter
             (\<lambda>obj. case title obj of
                      None \<Rightarrow> None
                    | Some target \<Rightarrow>
                        if target = [] then None
                        else (case fuzzyScore e search target of
                                None \<Rightarrow> None
                              | Some score \<Rightarrow> if score < threshold then None else Some (score, obj)))
             targets))"

definition applyFuzzysort ::
  "env \<Rightarrow> string option \<Rightarrow> MappedTransaction list \<Rightarrow> MappedTransaction list"
where
  "applyFuzzysort e search mappedTransactions =
     (case search of
        Some s \<Rightarrow> if s \<noteq> [] then fuzzysortGo e s mappedTransactions else mappedTransactions
      | None \<Rightarrow> mappedTransactions)"

subsection \<open>Apply interval filtering\<close>

definition inInterval :: "env \<Rightarrow> string \<Rightarrow> string \<Rightarrow> MappedTransaction \<Rightarrow> bool" where
  "inInterval e from to transaction =
     (let transactionDate = date transaction;
          fromDate = startOfDay (timezoneOffset e) (newDate e from);
          endDate = endOfDay (timezoneOffset e) (newDate e to)
      in dateLe fromDate transactionDate \<and> dateLe transactionDate endDate)"

definition applyIntervalFiltering ::
  "env \<Rightarrow> string option \<Rightarrow> string option \<Rightarrow> MappedTransaction list \<Rightarrow> MappedTransaction list"
where
  "applyIntervalFiltering e from to mappedTransactions =
     (case (from, to) of
        (Some f, Some t) \<Rightarrow>
          if f \<noteq> [] \<and> t \<noteq> [] then filter (inInterval e f t) mappedTransactions
          else mappedTransactions
      | _ \<Rightarrow> mappedTransactions)"

subsection \<open>Apply categorization\<close>

text \<open>
  The \<^verbatim>\<open>for\<close> loop of the callback, over the transactions in their order; the first
  call that raises ends it.
\<close>

fun applyCategorization ::
  "env \<Rightarrow> string option \<Rightarrow> MappedTransaction list \<Rightarrow> error + CategorizedTransaction list"
where
  "applyCategorization e cat [] = Inr []"
| "applyCategorization e cat (transaction # rest) =
     (case getClassifications e (title transaction) of
        None \<Rightarrow> Inl ClassifierThrew
      | Some [] \<Rightarrow> Inl TypeError
      | Some (classifiedCategory # _) \<Rightarrow>
          (case applyCategorization e cat rest of
             Inl err \<Rightarrow> Inl err
           | Inr categorizedTransactions \<Rightarrow>
               Inr (if \<not> truthy cat \<or> cat = Some classifiedCategory
                    then withCategory transaction classifiedCategory # categorizedTransactions
                    else categorizedTransactions)))"

subsection \<open>The handler\<close>

text \<open>
  From the fetched transactions and balance to the \<^verbatim>\<open>data\<close> of the response:
  \<^verbatim>\<open>categorizedTransactions.sort((prev, next) => prev.weight - next.weight)\<close>, a stable
  sort by weight.
\<close>

definition getAccountTransactions ::
  "env \<Rightarrow> string option \<Rightarrow> string option \<Rightarrow> string option \<Rightarrow> string option
     \<Rightarrow> RawTransaction list \<Rightarrow> string \<Rightarrow> error + CategorizedTransaction list"
where
  "getAccountTransactions e search cat from to transactions currentBalance =
     (case applyCategorization e cat
             (applyIntervalFiltering e from to
                (applyFuzzysort e search
                   (mapCumulativeBalance e transactions currentBalance))) of
        Inl err \<Rightarrow> Inl err
      | Inr categorizedTransactions \<Rightarrow> Inr (sort_key weight categorizedTransactions))"

subsection \<open>Notions used to state the properties\<close>



text \<open>The label the classifier puts first for a transaction (empty when it gives none).\<close>

definition classifiedCategory :: "env \<Rightarrow> MappedTransaction \<Rightarrow> string" where
  "classifiedCategory e transaction =
     (case getClassifications e (title transaction) of Some (label # _) \<Rightarrow> label | _ \<Rightarrow> [])"

text \<open>
  What each of the three steps keeps, as a predicate on one transaction: the search step
  with its query, the interval step with its bounds, the categorization with its filter.
\<close>

definition searchKeeps :: "env \<Rightarrow> string option \<Rightarrow> MappedTransaction \<Rightarrow> bool" where
  "searchKeeps e search transaction =
     (case search of
        None \<Rightarrow> True
      | Some s \<Rightarrow>
          s = [] \<or>
          (case title transaction of
             None \<Rightarrow> False
           | Some target \<Rightarrow>
               target \<noteq> [] \<and>
               (case fuzzyScore e s target of None \<Rightarrow> False | Some score \<Rightarrow> threshold \<le> score)))"

definition intervalKeeps :: "env \<Rightarrow> string option \<Rightarrow> string option \<Rightarrow> MappedTransaction \<Rightarrow> bool" where
  "intervalKeeps e from to transaction =
     (case (from, to) of
        (Some f, Some t) \<Rightarrow> f = [] \<or> t = [] \<or> inInterval e f t transaction
      | _ \<Rightarrow> True)"

definition categoryKeeps :: "env \<Rightarrow> string option \<Rightarrow> MappedTransaction \<Rightarrow> bool" where
  "categoryKeeps e cat transaction =
     (case cat of None \<Rightarrow> True | Some c \<Rightarrow> c = [] \<or> c = classifiedCategory e transaction)"

definition survives ::
  "env \<Rightarrow> string option \<Rightarrow> string option \<Rightarrow> string option \<Rightarrow> string option
     \<Rightarrow> MappedTransaction \<Rightarrow> bool"
where
  "survives e search cat from to transaction =
     (searchKeeps e search transaction \<and> intervalKeeps e from to transaction
      \<and> categoryKeeps e cat transaction)"


subsection \<open>An example\<close>

text \<open>
  Surroundings and transactions to evaluate the handler on: three dates of May 2023 (at
  midnight UTC) on a server two hours east of UTC, a score that matches a prefix and
  falls with the length of the rest, and a classifier that knows two shops, has one label
  for every other text and throws on a missing text.
\<close>

definition exampleEnv :: env where
  "exampleEnv =
     \<lparr>newDate = map_of
        [(''2023-05-01'', 1682899200000),
         (''2023-05-05'', 1683244800000),
         (''2023-05-10'', 1683676800000)],
      timezoneOffset = 7200000,
      fuzzyScore = (\<lambda>search target.
        if prefix search target then Some (- int (length target - length search)) else None),
      getClassifications = (\<lambda>title.
        case title of
          None \<Rightarrow> None
        | Some t \<Rightarrow>
            if prefix ''Netto'' t then Some [''Food'', ''Transport'']
            else if prefix ''DSB'' t then Some [''Transport'', ''Food'']
            else Some [''Other''])\<rparr>"

definition exampleTransactions :: "RawTransaction list" where
  "exampleTransactions =
     [\<lparr>transactionId = ''A'', bookingDate = ''2023-05-10'', transactionAmount = ''100'',
        remittanceInformationUnstructuredArray = [''Netto City'']\<rparr>,
      \<lparr>transactionId = ''B'', bookingDate = ''2023-05-05'', transactionAmount = ''-30'',
        remittanceInformationUnstructuredArray = [''Netto'']\<rparr>,
      \<lparr>transactionId = ''C'', bookingDate = ''2023-05-01'', transactionAmount = ''10'',
        remittanceInformationUnstructuredArray = [''DSB'', ''Orange'']\<rparr>]"


section \<open>Lemmas\<close>

subsection \<open>Digits and decimal numerals\<close>














subsection \<open>Reading back what \<open>toFixed\<close> prints\<close>







subsection \<open>The balance string survives \<open>format\<close> and \<open>nordigenCurrency\<close>\<close>














subsection \<open>The first map\<close>

lemma length_mapLoop: "length (mapLoop e ts b k rest) = length rest"
  by (induction rest arbitrary: b k) (simp_all add: Let_def)

lemma mapLoop_weight:
  "j < length rest \<Longrightarrow> weight (mapLoop e ts b k rest ! j) = k + j"
proof (induction rest arbitrary: b k j)
  case Nil
  then show ?case by simp
next
  case (Cons t rest)
  then show ?case by (cases j) (simp_all add: Let_def)
qed




subsection \<open>The steps after the first map as filters\<close>

lemma applyCategorization_Inr:
  "applyCategorization e cat xs = Inr out \<Longrightarrow>
   out = map (\<lambda>t. withCategory t (classifiedCategory e t)) (filter (categoryKeeps e cat) xs)"
proof (induction xs arbitrary: out)
  case Nil
  then show ?case by simp
next
  case (Cons x xs)
  from Cons.prems obtain l ls where g: "getClassifications e (title x) = Some (l # ls)"
    by (auto split: option.splits list.splits)
  from Cons.prems g obtain out' where r: "applyCategorization e cat xs = Inr out'"
    by (auto split: sum.splits)
  have lab: "classifiedCategory e x = l" by (simp add: classifiedCategory_def g)
  have keep: "categoryKeeps e cat x = (\<not> truthy cat \<or> cat = Some l)"
    by (auto simp: categoryKeeps_def truthy_def lab split: option.splits)
  from Cons.prems g r
  have "out = (if \<not> truthy cat \<or> cat = Some l then withCategory x l # out' else out')"
    by simp
  then show ?case
    using Cons.IH [OF r] by (simp add: keep lab)
qed

lemma applyCategorization_succeeds:
  "(\<exists>out. applyCategorization e cat xs = Inr out)
     \<longleftrightarrow> (\<forall>x \<in> set xs. \<exists>l ls. getClassifications e (title x) = Some (l # ls))"
proof (induction xs)
  case Nil
  then show ?case by simp
next
  case (Cons x xs)
  show ?case
  proof (cases "getClassifications e (title x)")
    case None
    then show ?thesis by simp
  next
    case (Some ls)
    show ?thesis
    proof (cases ls)
      case Nil
      then show ?thesis using Some by simp
    next
      case (Cons l ls')
      then show ?thesis using Some Cons.IH
        by (cases "applyCategorization e cat xs") auto
    qed
  qed
qed

lemma map_snd_map_filter:
  "map snd (List.map_filter (\<lambda>x. if P x then Some (k x, x) else None) xs) = filter P xs"
  by (induction xs) simp_all

lemma fuzzysortGo_mset:
  assumes "s \<noteq> []"
  shows "mset (fuzzysortGo e s xs) = mset (filter (searchKeeps e (Some s)) xs)"
proof -
  define k :: "MappedTransaction \<Rightarrow> int" where "k = (\<lambda>obj. case fuzzyScore e s (the (title obj)) of Some score \<Rightarrow> score | None \<Rightarrow> 0)"
  define h :: "MappedTransaction \<Rightarrow> (int \<times> MappedTransaction) option" where "h = (\<lambda>obj. case title obj of
                      None \<Rightarrow> None
                    | Some target \<Rightarrow>
                        if target = [] then None
                        else (case fuzzyScore e s target of
                                None \<Rightarrow> None
                              | Some score \<Rightarrow> if score < threshold then None else Some (score, obj)))"
  have pt: "h x = (if searchKeeps e (Some s) x then Some (k x, x) else None)" for x
  proof (cases "title x")
    case None
    then show ?thesis by (simp add: h_def searchKeeps_def assms)
  next
    case (Some target)
    show ?thesis
    proof (cases "fuzzyScore e s target")
      case None
      then show ?thesis using Some by (simp add: h_def searchKeeps_def assms)
    next
      case (Some score)
      then show ?thesis using \<open>title x = Some target\<close>
        by (simp add: h_def searchKeeps_def assms k_def not_less)
    qed
  qed
  then have eq: "h = (\<lambda>x. if searchKeeps e (Some s) x then Some (k x, x) else None)"
    by (simp add: fun_eq_iff)
  have "fuzzysortGo e s xs = map snd (sort_key (\<lambda>r. - fst r) (List.map_filter h xs))"
    by (simp add: fuzzysortGo_def h_def)
  then have "mset (fuzzysortGo e s xs) = image_mset snd (mset (List.map_filter h xs))"
    by (simp only: mset_map mset_sort)
  also have "\<dots> = mset (map snd (List.map_filter h xs))"
    by (simp only: mset_map)
  also have "\<dots> = mset (filter (searchKeeps e (Some s)) xs)"
    by (simp only: eq map_snd_map_filter)
  finally show ?thesis .
qed

lemma applyFuzzysort_mset:
  "mset (applyFuzzysort e search xs) = mset (filter (searchKeeps e search) xs)"
proof (cases search)
  case None
  then show ?thesis by (simp add: applyFuzzysort_def searchKeeps_def)
next
  case (Some s)
  show ?thesis
  proof (cases "s = []")
    case True
    then show ?thesis by (simp add: Some applyFuzzysort_def searchKeeps_def)
  next
    case False
    then show ?thesis using fuzzysortGo_mset [OF False] by (simp add: Some applyFuzzysort_def)
  qed
qed

lemma applyIntervalFiltering_eq:
  "applyIntervalFiltering e from to xs = filter (intervalKeeps e from to) xs"
  by (auto simp: applyIntervalFiltering_def intervalKeeps_def split: option.splits intro: filter_cong)

lemma weight_withCategory: "weight (withCategory t c) = weight t"
  by (simp add: withCategory_def)

lemma truncate_withCategory: "MappedTransaction.truncate (withCategory t c) = t"
  by (simp add: withCategory_def MappedTransaction.truncate_def)

lemma map_weight_mapCumulativeBalance:
  "map weight (mapCumulativeBalance e txs bal) = [0..<length txs]"
  by (rule nth_equalityI) (simp_all add: mapCumulativeBalance_def length_mapLoop mapLoop_weight)

lemma getAccountTransactions_Inr:
  assumes "getAccountTransactions e search cat from to txs bal = Inr out"
  shows "out = map (\<lambda>t. withCategory t (classifiedCategory e t))
                 (filter (survives e search cat from to) (mapCumulativeBalance e txs bal))"
proof -
  let ?M = "mapCumulativeBalance e txs bal"
  let ?g = "\<lambda>t. withCategory t (classifiedCategory e t)"
  let ?zs = "applyIntervalFiltering e from to (applyFuzzysort e search ?M)"
  let ?ys = "map ?g (filter (survives e search cat from to) ?M)"
  from assms obtain cs where cs: "applyCategorization e cat ?zs = Inr cs" and out: "out = sort_key weight cs"
    by (auto simp: getAccountTransactions_def split: sum.splits)
  have cs_eq: "cs = map ?g (filter (categoryKeeps e cat) ?zs)"
    by (rule applyCategorization_Inr [OF cs])
  have zs: "mset ?zs = mset (filter (\<lambda>t. searchKeeps e search t \<and> intervalKeeps e from to t) ?M)"
    by (simp add: applyIntervalFiltering_eq applyFuzzysort_mset filter_filter_mset conj_commute)
  have m: "mset cs = mset ?ys"
  proof -
    have "mset cs = image_mset ?g (filter_mset (categoryKeeps e cat) (mset ?zs))"
      by (simp add: cs_eq)
    also have "\<dots> = mset ?ys"
      unfolding zs by (simp add: survives_def filter_filter_mset conj_commute conj_left_commute)
    finally show ?thesis .
  qed
  have w: "map weight ?ys = map weight (filter (survives e search cat from to) ?M)"
    by (simp add: weight_withCategory comp_def)
  have s: "sorted (map weight ?ys)"
    unfolding w by (rule sorted_filter) (simp add: map_weight_mapCumulativeBalance)
  have d: "distinct (map weight ?ys)"
    unfolding w by (rule distinct_map_filter) (simp add: map_weight_mapCumulativeBalance)
  have "set cs = set ?ys" using m by (rule mset_eq_setD)
  moreover have "inj_on weight (set ?ys)" using d by (simp only: distinct_map)
  ultimately have "inj_on weight (set cs)" by simp
  from sort_key_inj_key_eq [OF m this s] show ?thesis by (simp only: out)
qed


lemma length_mapCumulativeBalance: "length (mapCumulativeBalance e txs bal) = length txs"
  by (simp add: mapCumulativeBalance_def length_mapLoop)

lemma weight_mapCumulativeBalance:
  "i < length txs \<Longrightarrow> weight (mapCumulativeBalance e txs bal ! i) = i"
  by (simp add: mapCumulativeBalance_def mapLoop_weight)

lemma survivor_is_annotated:
  assumes "getAccountTransactions e search cat from to txs bal = Inr out" and "x \<in> set out"
  shows "weight x < length txs
    \<and> x = withCategory (mapCumulativeBalance e txs bal ! weight x)
            (classifiedCategory e (mapCumulativeBalance e txs bal ! weight x))
    \<and> survives e search cat from to (mapCumulativeBalance e txs bal ! weight x)"
proof -
  let ?M = "mapCumulativeBalance e txs bal"
  from getAccountTransactions_Inr [OF assms(1)] assms(2)
  obtain t where t: "t \<in> set ?M" "survives e search cat from to t"
    and x: "x = withCategory t (classifiedCategory e t)"
    by auto
  from t(1) obtain i where i: "i < length ?M" "t = ?M ! i"
    by (auto simp: in_set_conv_nth)
  then have il: "i < length txs" by (simp add: length_mapCumulativeBalance)
  have w: "weight x = i"
    using i(2) il by (simp add: x weight_withCategory weight_mapCumulativeBalance)
  show ?thesis unfolding w using il t(2) x i(2) by simp
qed

subsection \<open>Days\<close>





subsection \<open>Categories, titles and amounts\<close>

lemma applyCategorization_empty_filter:
  "applyCategorization e (Some []) ts = applyCategorization e None ts"
  by (induction ts) (simp_all add: truthy_def split: option.splits list.splits sum.splits)





section \<open>Properties\<close>



text \<open>
  C2 (the filters do not touch the balances). Every transaction of the response stands in
  the list of the first map, which is computed from all transactions before any filter
  and does not depend on the search text, the interval or the category: it is the record
  at the index given by its weight, with the running balance computed there. So two
  responses for the same transactions and balance, under any two choices of filters,
  agree on every transaction they share; the choice without any filter is one of them.
\<close>

theorem filter_noninterference:
  assumes "getAccountTransactions e search cat from to txs bal = Inr out" and "x \<in> set out"
  shows "weight x < length txs
    \<and> totalAmountInt x = totalAmountInt (mapCumulativeBalance e txs bal ! weight x)
    \<and> totalAmount x = totalAmount (mapCumulativeBalance e txs bal ! weight x)
    \<and> (\<forall>search' cat' from' to' out' x'.
          getAccountTransactions e search' cat' from' to' txs bal = Inr out' \<longrightarrow>
          x' \<in> set out' \<longrightarrow> weight x' = weight x \<longrightarrow> x' = x)"
proof -
  let ?M = "mapCumulativeBalance e txs bal"
  note s = survivor_is_annotated [OF assms]
  have a: "totalAmountInt x = totalAmountInt (?M ! weight x)"
    by (subst conjunct1 [OF conjunct2 [OF s]]) (simp add: withCategory_def)
  have b: "totalAmount x = totalAmount (?M ! weight x)"
    by (subst conjunct1 [OF conjunct2 [OF s]]) (simp add: withCategory_def)
  have c: "x' = x"
    if "getAccountTransactions e search' cat' from' to' txs bal = Inr out'"
      and "x' \<in> set out'" and "weight x' = weight x"
    for search' cat' from' to' out' x'
    using survivor_is_annotated [OF that(1,2)] s that(3) by simp
  show ?thesis using s a b c by blast
qed

text \<open>
  With a search text, a category and an interval, the transaction \<open>B\<close> of the example keeps
  the balance \<open>400\<close> of the unfiltered list.
\<close>

theorem filter_noninterference_witness:
  "getAccountTransactions exampleEnv (Some ''Netto'') (Some ''Food'') (Some ''2023-05-05'')
       (Some ''2023-05-10'') exampleTransactions ''500''
     = Inr [\<lparr>ident = ''A'', weight = 0, title = Some ''Netto City'',
              date = Some 1683676800000, amount = ''100,00'',
              totalAmount = ''500,00'', totalAmountInt = Some 500, category = ''Food''\<rparr>,
            \<lparr>ident = ''B'', weight = 1, title = Some ''Netto'',
              date = Some 1683244800000, amount = ''-30,00'',
              totalAmount = ''400,00'', totalAmountInt = Some 400, category = ''Food''\<rparr>]
   \<and> totalAmountInt (mapCumulativeBalance exampleEnv exampleTransactions ''500'' ! 1) = Some 400
   \<and> totalAmount (mapCumulativeBalance exampleEnv exampleTransactions ''500'' ! 1) = ''400,00''"
proof -
  let ?B = "\<lparr>ident = ''B'', weight = 1, title = Some ''Netto'',
              date = Some 1683244800000, amount = ''-30,00'',
              totalAmount = ''400,00'', totalAmountInt = Some 400, category = ''Food''\<rparr>"
  have h: "getAccountTransactions exampleEnv (Some ''Netto'') (Some ''Food'') (Some ''2023-05-05'')
       (Some ''2023-05-10'') exampleTransactions ''500''
     = Inr [\<lparr>ident = ''A'', weight = 0, title = Some ''Netto City'',
              date = Some 1683676800000, amount = ''100,00'',
              totalAmount = ''500,00'', totalAmountInt = Some 500, category = ''Food''\<rparr>, ?B]"
    by code_simp
  have m: "?B \<in> set [\<lparr>ident = ''A'', weight = 0, title = Some ''Netto City'',
              date = Some 1683676800000, amount = ''100,00'',
              totalAmount = ''500,00'', totalAmountInt = Some 500, category = ''Food''\<rparr>, ?B]"
    by simp
  from filter_noninterference [OF h m] h show ?thesis by simp
qed

text \<open>
  C3 (order restoration). The response is sorted by ascending weight, no weight occurs
  twice, and without their categories its transactions are a subsequence of the list of
  the first map: they stand in the order of the provider, whatever the search step did.
\<close>

theorem order_restoration:
  assumes "getAccountTransactions e search cat from to txs bal = Inr out"
  shows "sorted (map weight out) \<and> distinct (map weight out)
    \<and> subseq (map MappedTransaction.truncate out) (mapCumulativeBalance e txs bal)"
proof -
  let ?M = "mapCumulativeBalance e txs bal"
  let ?P = "survives e search cat from to"
  have out: "out = map (\<lambda>t. withCategory t (classifiedCategory e t)) (filter ?P ?M)"
    by (rule getAccountTransactions_Inr [OF assms])
  have w: "map weight out = map weight (filter ?P ?M)"
    by (simp add: out weight_withCategory comp_def)
  have s: "sorted (map weight out)"
    unfolding w by (rule sorted_filter) (simp add: map_weight_mapCumulativeBalance)
  have d: "distinct (map weight out)"
    unfolding w by (rule distinct_map_filter) (simp add: map_weight_mapCumulativeBalance)
  have "map MappedTransaction.truncate out = filter ?P ?M"
    by (simp add: out truncate_withCategory comp_def)
  then have "subseq (map MappedTransaction.truncate out) ?M" by simp
  with s d show ?thesis by simp
qed

text \<open>
  The search for \<open>Netto\<close> puts the better match \<open>B\<close> before \<open>A\<close>; the response has \<open>A\<close>
  before \<open>B\<close> again.
\<close>

theorem order_restoration_witness:
  "map weight (applyFuzzysort exampleEnv (Some ''Netto'')
      (mapCumulativeBalance exampleEnv exampleTransactions ''500'')) = [1, 0]
   \<and> getAccountTransactions exampleEnv (Some ''Netto'') None None None exampleTransactions ''500''
     = Inr [\<lparr>ident = ''A'', weight = 0, title = Some ''Netto City'',
              date = Some 1683676800000, amount = ''100,00'',
              totalAmount = ''500,00'', totalAmountInt = Some 500, category = ''Food''\<rparr>,
            \<lparr>ident = ''B'', weight = 1, title = Some ''Netto'',
              date = Some 1683244800000, amount = ''-30,00'',
              totalAmount = ''400,00'', totalAmountInt = Some 400, category = ''Food''\<rparr>]
   \<and> sorted [0, 1 :: nat]"
proof -
  have r: "map weight (applyFuzzysort exampleEnv (Some ''Netto'')
      (mapCumulativeBalance exampleEnv exampleTransactions ''500'')) = [1, 0]"
    by code_simp
  have h: "getAccountTransactions exampleEnv (Some ''Netto'') None None None exampleTransactions ''500''
     = Inr [\<lparr>ident = ''A'', weight = 0, title = Some ''Netto City'',
              date = Some 1683676800000, amount = ''100,00'',
              totalAmount = ''500,00'', totalAmountInt = Some 500, category = ''Food''\<rparr>,
            \<lparr>ident = ''B'', weight = 1, title = Some ''Netto'',
              date = Some 1683244800000, amount = ''-30,00'',
              totalAmount = ''400,00'', totalAmountInt = Some 400, category = ''Food''\<rparr>]"
    by code_simp
  from order_restoration [OF h] have "sorted [0, 1 :: nat]" by simp
  with r h show ?thesis by simp
qed

text \<open>
  C4 (search identity on an absent or empty query). Without a search text, and with the
  empty one, the search step returns the list it was given.
\<close>

theorem search_identity:
  "applyFuzzysort e None mappedTransactions = mappedTransactions
   \<and> applyFuzzysort e (Some []) mappedTransactions = mappedTransactions"
  by (simp add: applyFuzzysort_def)

text \<open>On the example, the three transactions come back in their order.\<close>

theorem search_identity_witness:
  "map ident (applyFuzzysort exampleEnv (Some [])
      (mapCumulativeBalance exampleEnv exampleTransactions ''500'')) = [''A'', ''B'', ''C'']"
proof -
  have "map ident (mapCumulativeBalance exampleEnv exampleTransactions ''500'') = [''A'', ''B'', ''C'']"
    by code_simp
  with search_identity [of exampleEnv "mapCumulativeBalance exampleEnv exampleTransactions ''500''"]
  show ?thesis by simp
qed

text \<open>
  C5 (the date filter is all or nothing). When the lower or the upper bound is absent,
  also when the other one is given, the interval step returns the list it was given.
\<close>

theorem interval_all_or_nothing:
  "from = None \<or> to = None \<Longrightarrow>
   applyIntervalFiltering e from to mappedTransactions = mappedTransactions"
  by (auto simp: applyIntervalFiltering_def split: option.splits)

text \<open>
  With the lower bound 10 May 2023 only, the transactions of 5 May and 1 May stay.
\<close>

theorem interval_all_or_nothing_witness:
  "map ident (applyIntervalFiltering exampleEnv (Some ''2023-05-10'') None
      (mapCumulativeBalance exampleEnv exampleTransactions ''500'')) = [''A'', ''B'', ''C'']"
proof -
  have "map ident (mapCumulativeBalance exampleEnv exampleTransactions ''500'') = [''A'', ''B'', ''C'']"
    by code_simp
  moreover have "Some ''2023-05-10'' = None \<or> (None :: string option) = None" by simp
  from interval_all_or_nothing [OF this]
  have "applyIntervalFiltering exampleEnv (Some ''2023-05-10'') None
      (mapCumulativeBalance exampleEnv exampleTransactions ''500'')
        = mapCumulativeBalance exampleEnv exampleTransactions ''500''" .
  ultimately show ?thesis by simp
qed




text \<open>
  C7 (category filter exactness). When the categorization returns, every transaction it
  returns carries the label the classifier puts first for its title. With a non-empty
  category filter, the transactions returned are exactly those whose label is equal to
  the filter as a string, in their order; without a filter, all of them are returned.
\<close>

theorem category_filter_exact:
  assumes "applyCategorization e cat mappedTransactions = Inr out"
  shows "(truthy cat \<longrightarrow>
            out = map (\<lambda>t. withCategory t (classifiedCategory e t))
                    (filter (\<lambda>t. cat = Some (classifiedCategory e t)) mappedTransactions))
    \<and> (cat = None \<longrightarrow>
            out = map (\<lambda>t. withCategory t (classifiedCategory e t)) mappedTransactions)
    \<and> (\<forall>x \<in> set out. \<exists>rest.
          getClassifications e (title x) = Some (category x # rest))"
proof -
  let ?g = "\<lambda>t. withCategory t (classifiedCategory e t)"
  have out: "out = map ?g (filter (categoryKeeps e cat) mappedTransactions)"
    by (rule applyCategorization_Inr [OF assms])
  have a: "out = map ?g (filter (\<lambda>t. cat = Some (classifiedCategory e t)) mappedTransactions)"
    if "truthy cat"
  proof -
    from that obtain c where c: "cat = Some c" "c \<noteq> []"
      by (auto simp: truthy_def split: option.splits)
    have "categoryKeeps e cat = (\<lambda>t. cat = Some (classifiedCategory e t))"
      by (auto simp: categoryKeeps_def c fun_eq_iff)
    then show ?thesis using out by simp
  qed
  have b: "out = map ?g mappedTransactions" if "cat = None"
    using out that by (simp add: categoryKeeps_def)
  have all: "\<forall>t \<in> set mappedTransactions. \<exists>l ls. getClassifications e (title t) = Some (l # ls)"
    using applyCategorization_succeeds [of e cat mappedTransactions] assms by blast
  have c: "\<exists>rest. getClassifications e (title x) = Some (category x # rest)" if "x \<in> set out" for x
  proof -
    from that out obtain t where t: "t \<in> set mappedTransactions" and x: "x = ?g t" by auto
    from all t obtain l ls where l: "getClassifications e (title t) = Some (l # ls)" by blast
    then have "classifiedCategory e t = l" by (simp add: classifiedCategory_def)
    then show ?thesis using l by (simp add: x withCategory_def)
  qed
  show ?thesis using a b c by blast
qed

text \<open>
  On the example, the filter \<open>Transport\<close> keeps the one transaction labelled so, and the
  filter \<open>transport\<close>, which differs in case, keeps none.
\<close>

theorem category_filter_exact_witness:
  "applyCategorization exampleEnv (Some ''Transport'')
      (mapCumulativeBalance exampleEnv exampleTransactions ''500'')
     = Inr [\<lparr>ident = ''C'', weight = 2, title = Some ''DSB'',
              date = Some 1682899200000, amount = ''10,00'',
              totalAmount = ''430,00'', totalAmountInt = Some 430, category = ''Transport''\<rparr>]
   \<and> getClassifications exampleEnv (Some ''DSB'') = Some [''Transport'', ''Food'']
   \<and> applyCategorization exampleEnv (Some ''transport'')
      (mapCumulativeBalance exampleEnv exampleTransactions ''500'') = Inr []"
proof -
  let ?C = "\<lparr>ident = ''C'', weight = 2, title = Some ''DSB'',
              date = Some 1682899200000, amount = ''10,00'',
              totalAmount = ''430,00'', totalAmountInt = Some 430, category = ''Transport''\<rparr>"
  have h: "applyCategorization exampleEnv (Some ''Transport'')
      (mapCumulativeBalance exampleEnv exampleTransactions ''500'') = Inr [?C]"
    by code_simp
  have k: "applyCategorization exampleEnv (Some ''transport'')
      (mapCumulativeBalance exampleEnv exampleTransactions ''500'') = Inr []"
    by code_simp
  from category_filter_exact [OF h]
  have "\<exists>rest. getClassifications exampleEnv (title ?C) = Some (category ?C # rest)"
    by simp
  then obtain rest where "getClassifications exampleEnv (Some ''DSB'') = Some (''Transport'' # rest)"
    by auto
  moreover have "getClassifications exampleEnv (Some ''DSB'') = Some [''Transport'', ''Food'']"
    by code_simp
  ultimately show ?thesis using h k by simp
qed

text \<open>
  C10 (the empty category filter). The empty string as category filter is the same as no
  filter, in the categorization and so in the whole response.
\<close>

theorem empty_category_filter:
  "applyCategorization e (Some []) mappedTransactions = applyCategorization e None mappedTransactions
   \<and> getAccountTransactions e search (Some []) from to transactions currentBalance
       = getAccountTransactions e search None from to transactions currentBalance"
  by (simp add: getAccountTransactions_def applyCategorization_empty_filter)

text \<open>On the example, the empty filter returns all three transactions with their labels.\<close>

theorem empty_category_filter_witness:
  "map category
     (case getAccountTransactions exampleEnv None (Some []) None None exampleTransactions ''500'' of
        Inl err \<Rightarrow> [] | Inr out \<Rightarrow> out) = [''Food'', ''Food'', ''Transport'']"
proof -
  have "map category
     (case getAccountTransactions exampleEnv None None None None exampleTransactions ''500'' of
        Inl err \<Rightarrow> [] | Inr out \<Rightarrow> out) = [''Food'', ''Food'', ''Transport'']"
    by code_simp
  with empty_category_filter [of exampleEnv _ None None None exampleTransactions "''500''"]
  show ?thesis by simp
qed







end
